theory Spec2Isabelle
  imports Complex_Main
begin

section \<open>JavaScript values\<close>

text \<open>
  The request bodies of \<^verbatim>\<open>backend/server.js\<close> are parsed JSON, and the handlers test
  them dynamically (truthiness, \<^verbatim>\<open>typeof\<close>, \<^verbatim>\<open>Array.isArray\<close>). The values are
  therefore modelled as a datatype of JavaScript values. A number is an IEEE double: a
  finite value, or one of the three special values (\<^verbatim>\<open>JSON.parse("1e999")\<close> is
  \<^verbatim>\<open>Infinity\<close>).
\<close>

datatype jsnum = Finite real | NaN | PosInfinity | NegInfinity

datatype jsval =
    Undefined
  | Null
  | Bool bool
  | Num jsnum
  | Str string
  | Arr "jsval list"
  | Obj "(string \<times> jsval) list"

text \<open>Truthiness, as \<^verbatim>\<open>!x\<close>, \<^verbatim>\<open>x && y\<close> and \<^verbatim>\<open>x || y\<close> read it.\<close>

fun truthy :: "jsval \<Rightarrow> bool" where
  "truthy Undefined = False"
| "truthy Null = False"
| "truthy (Bool b) = b"
| "truthy (Num (Finite x)) = (x \<noteq> 0)"
| "truthy (Num NaN) = False"
| "truthy (Num PosInfinity) = True"
| "truthy (Num NegInfinity) = True"
| "truthy (Str s) = (s \<noteq> [])"
| "truthy (Arr xs) = True"
| "truthy (Obj fs) = True"

fun typeof :: "jsval \<Rightarrow> string" where
  "typeof Undefined = ''undefined''"
| "typeof Null = ''object''"
| "typeof (Bool b) = ''boolean''"
| "typeof (Num n) = ''number''"
| "typeof (Str s) = ''string''"
| "typeof (Arr xs) = ''object''"
| "typeof (Obj fs) = ''object''"

text \<open>
  Member access \<^verbatim>\<open>v.k\<close> for the named fields the handlers read (\<^verbatim>\<open>lat\<close>, \<^verbatim>\<open>lng\<close>,
  \<^verbatim>\<open>filename\<close>, \<^verbatim>\<open>mime\<close>, \<^verbatim>\<open>size\<close>, \<^verbatim>\<open>status\<close>, ...): an object yields the
  field or \<^verbatim>\<open>undefined\<close> (\<open>Obj\<close> lists the fields of the parsed object, each key
  once); a primitive or an array has none of these fields. On
  \<^verbatim>\<open>undefined\<close> and \<^verbatim>\<open>null\<close> JavaScript throws; every access of the handlers is
  behind a truthiness test of the receiver, so that case is never reached.
\<close>

fun field :: "jsval \<Rightarrow> string \<Rightarrow> jsval" where
  "field (Obj fs) k = (case map_of fs k of Some v \<Rightarrow> v | None \<Rightarrow> Undefined)"
| "field v k = Undefined"

text \<open>\<^verbatim>\<open>a || b\<close>, and a destructuring default \<^verbatim>\<open>{ k = d } = o\<close> (used when the field is
  \<^verbatim>\<open>undefined\<close>, not when it is \<^verbatim>\<open>null\<close>).\<close>

definition js_or :: "jsval \<Rightarrow> jsval \<Rightarrow> jsval" where
  "js_or a b = (if truthy a then a else b)"

definition field_default :: "jsval \<Rightarrow> string \<Rightarrow> jsval \<Rightarrow> jsval" where
  "field_default obj k d = (if field obj k = Undefined then d else field obj k)"

section \<open>Strings\<close>

text \<open>
  A string is a list of code units below 256. \<^verbatim>\<open>String.prototype.trim\<close> removes white
  space and line terminators at both ends; below 256 these are the code units 9 to 13,
  32 and 160.
\<close>

definition js_space :: "char \<Rightarrow> bool" where
  "js_space c = (of_char c \<in> {9, 10, 11, 12, 13, 32, 160 :: nat})"

definition trim :: "string \<Rightarrow> string" where
  "trim s = rev (dropWhile js_space (rev (dropWhile js_space s)))"

definition startsWith :: "string \<Rightarrow> string \<Rightarrow> bool" where
  "startsWith s p = (take (length p) s = p)"

definition is_digit :: "char \<Rightarrow> bool" where
  "is_digit c = (c \<in> set ''0123456789'')"

text \<open>\<^verbatim>\<open>String(n)\<close> of an integral number: its decimal digits.\<close>

definition digit_char :: "nat \<Rightarrow> char" where
  "digit_char d = ''0123456789'' ! d"

function show_nat :: "nat \<Rightarrow> string" where
  "show_nat n = (if n < 10 then [digit_char n] else show_nat (n div 10) @ [digit_char (n mod 10)])"
  by pat_completeness auto
termination
  by (relation "measure (\<lambda>n. n)") auto

declare show_nat.simps [simp del]

definition show_int :: "int \<Rightarrow> string" where
  "show_int i = (if i < 0 then CHR ''-'' # show_nat (nat (- i)) else show_nat (nat i))"

text \<open>
  The phone and code fields of the OTP requests are modelled at the type the handlers
  convert them to: a string, or absent. \<^verbatim>\<open>!raw\<close> holds of an absent field and of the
  empty string; \<^verbatim>\<open>String(raw)\<close> of a string is the string.
\<close>

definition falsy_str :: "string option \<Rightarrow> bool" where
  "falsy_str raw = (case raw of None \<Rightarrow> True | Some t \<Rightarrow> t = [])"

definition String_of :: "string option \<Rightarrow> string" where
  "String_of raw = (case raw of None \<Rightarrow> ''undefined'' | Some t \<Rightarrow> t)"

section \<open>Utilities of the server\<close>

text \<open>\<^verbatim>\<open>toE164(phone)\<close>: the checks in the order of the source.\<close>

definition toE164 :: "string \<Rightarrow> string" where
  "toE164 phone =
     (let digits = filter is_digit phone in
      if length digits = 10 then ''+91'' @ digits
      else if startsWith digits ''91'' \<and> length digits = 12 then ''+'' @ digits
      else if startsWith digits ''0'' \<and> length digits = 11 then ''+91'' @ drop 1 digits
      else if startsWith phone ''+'' then phone
      else ''+'' @ digits)"

text \<open>
  The environment read at start-up: \<^verbatim>\<open>DEV_OTP_MODE\<close>, whether a Twilio client was
  built (\<^verbatim>\<open>smsClient\<close> is non-null) and \<^verbatim>\<open>TWILIO_FROM\<close>. The Twilio call itself is
  a parameter: what \<^verbatim>\<open>smsClient.messages.create({to, from, body})\<close> does, namely
  return, or throw an error whose message may be missing.
\<close>

record config =
  DEV_OTP_MODE :: bool
  smsClient :: bool
  TWILIO_FROM :: string

datatype twilio_outcome = Delivered | Threw "string option"

type_synonym gateway = "string \<Rightarrow> string \<Rightarrow> string \<Rightarrow> twilio_outcome"

record sms_result =
  ok :: bool
  dev :: bool
  error :: "string option"

definition or_str :: "string option \<Rightarrow> string \<Rightarrow> string" where
  "or_str m d = (case m of None \<Rightarrow> d | Some t \<Rightarrow> (if t = [] then d else t))"

definition sendSms :: "config \<Rightarrow> gateway \<Rightarrow> string \<Rightarrow> string \<Rightarrow> sms_result" where
  "sendSms cfg gw to body =
     (if DEV_OTP_MODE cfg then \<lparr>ok = True, dev = True, error = None\<rparr>
      else if smsClient cfg \<and> TWILIO_FROM cfg \<noteq> [] then
        (case gw to (TWILIO_FROM cfg) body of
           Delivered \<Rightarrow> \<lparr>ok = True, dev = False, error = None\<rparr>
         | Threw m \<Rightarrow> \<lparr>ok = False, dev = False, error = Some (or_str m ''twilio_failed'')\<rparr>)
      else \<lparr>ok = True, dev = True, error = None\<rparr>)"

section \<open>The store\<close>

text \<open>
  The tables the handlers reach through the Prisma client. \<^verbatim>\<open>Otp\<close> and \<^verbatim>\<open>User\<close>
  are keyed by their unique \<^verbatim>\<open>phone\<close>, \<^verbatim>\<open>Issue\<close> by its autoincremented
  \<^verbatim>\<open>id\<close>; \<^verbatim>\<open>Event\<close> and \<^verbatim>\<open>Attachment\<close> rows are kept in insertion order. A
  row holds the values the handler passes, once the client has accepted them (see the
  column checks below). Columns the handlers never write (row ids of events and
  attachments, defaulted timestamps) are left out.
\<close>

record otp =
  code :: string
  expiresAt :: int
  createdAt :: int
  attempts :: int

record user =
  uid :: nat
  role :: string

record issue =
  category :: jsval
  description :: jsval
  lat :: jsval
  lng :: jsval
  status :: jsval
  createdById :: "nat option"

record attachment =
  att_issueId :: int
  filename :: jsval
  mime :: jsval
  size :: jsval

record event =
  ev_issueId :: int
  ev_status :: jsval
  byPhone :: "string option"

record store =
  otp_tbl :: "string \<rightharpoonup> otp"
  user_tbl :: "string \<rightharpoonup> user"
  user_seq :: nat
  issue_tbl :: "int \<rightharpoonup> issue"
  issue_seq :: int
  attachment_tbl :: "attachment list"
  event_tbl :: "event list"

definition empty_store :: store where
  "empty_store = \<lparr>otp_tbl = Map.empty, user_tbl = Map.empty, user_seq = 1,
     issue_tbl = Map.empty, issue_seq = 1, attachment_tbl = [], event_tbl = []\<rparr>"

text \<open>
  The Prisma client checks every value of a write against the type of its column before
  it writes anything, and throws when one does not fit; the call then leaves the table
  as it was. The column types are those of the migrations: a \<^verbatim>\<open>TEXT NOT NULL\<close>
  column takes a string, a \<^verbatim>\<open>REAL NOT NULL\<close> column a finite number, an
  \<^verbatim>\<open>INTEGER NOT NULL\<close> column a whole number within the range of the client's
  integer type. That range is declared in the Prisma schema, which is not among the
  sources: it is the parameter \<open>int_fits\<close>. In an update, a text column also takes the
  operation object \<^verbatim>\<open>{set: "..."}\<close>, which writes the string it holds.
\<close>

definition text_ok :: "jsval \<Rightarrow> bool" where
  "text_ok v = (case v of Str t \<Rightarrow> True | _ \<Rightarrow> False)"

definition real_ok :: "jsval \<Rightarrow> bool" where
  "real_ok v = (case v of Num (Finite x) \<Rightarrow> True | _ \<Rightarrow> False)"

definition int_ok :: "(int \<Rightarrow> bool) \<Rightarrow> jsval \<Rightarrow> bool" where
  "int_ok int_fits v =
     (case v of Num (Finite x) \<Rightarrow> x = of_int \<lfloor>x\<rfloor> \<and> int_fits \<lfloor>x\<rfloor> | _ \<Rightarrow> False)"

definition text_update :: "jsval \<Rightarrow> jsval option" where
  "text_update v =
     (case v of
        Str t \<Rightarrow> Some (Str t)
      | Obj fs \<Rightarrow>
          (case fs of
             [(k, Str t)] \<Rightarrow> (if k = ''set'' then Some (Str t) else None)
           | _ \<Rightarrow> None)
      | _ \<Rightarrow> None)"

definition issue_row_ok :: "issue \<Rightarrow> bool" where
  "issue_row_ok r = (text_ok (category r) \<and> text_ok (description r)
                     \<and> real_ok (lat r) \<and> real_ok (lng r) \<and> text_ok (status r))"

definition attachment_row_ok :: "(int \<Rightarrow> bool) \<Rightarrow> attachment \<Rightarrow> bool" where
  "attachment_row_ok int_fits a =
     (text_ok (filename a) \<and> text_ok (mime a) \<and> int_ok int_fits (size a))"

section \<open>Replies\<close>

text \<open>
  Each error reply of the handlers is a value: \<^verbatim>\<open>PhoneRequired\<close> is
  \<^verbatim>\<open>400 {error: "phone required"}\<close> (ValidationError), \<^verbatim>\<open>PleaseWait n\<close> is
  \<^verbatim>\<open>429 {error: `Please wait ${n}s`}\<close> (RateLimited), \<^verbatim>\<open>FailedToSend d\<close> is
  \<^verbatim>\<open>500 {error: "Failed to send OTP", detail: d}\<close> (DeliveryError),
  \<^verbatim>\<open>PhoneAndCodeRequired\<close> is \<^verbatim>\<open>400 {error: "phone and code required"}\<close>,
  \<^verbatim>\<open>StartOtpFirst\<close> is \<^verbatim>\<open>400 {error: "start OTP first"}\<close> (NotRequested),
  \<^verbatim>\<open>OtpExpired\<close> is \<^verbatim>\<open>400 {error: "OTP expired"}\<close>, \<^verbatim>\<open>TooManyAttempts\<close> is
  \<^verbatim>\<open>429 {error: "Too many attempts"}\<close>, \<^verbatim>\<open>InvalidOtp\<close> is
  \<^verbatim>\<open>400 {error: "Invalid OTP"}\<close>, \<^verbatim>\<open>CoordsRequired\<close> is
  \<^verbatim>\<open>400 {error: "category and coords {lat,lng} required"}\<close> (ValidationError) and
  \<^verbatim>\<open>IssueNotFound\<close> is \<^verbatim>\<open>404 {error: "issue not found"}\<close>.
  \<^verbatim>\<open>Unhandled\<close> is no reply at all: an awaited Prisma call throws inside a handler
  that has no \<^verbatim>\<open>try\<close>, the promise of the handler is rejected and nothing
  catches it. The writes made before the throw stay in the store. The two OTP handlers
  have a \<^verbatim>\<open>try\<close>, but every value they write fits its column, so their
  \<^verbatim>\<open>catch\<close> is never reached.
\<close>

datatype failure =
    PhoneRequired
  | PleaseWait int
  | FailedToSend "string option"
  | PhoneAndCodeRequired
  | StartOtpFirst
  | OtpExpired
  | TooManyAttempts
  | InvalidOtp
  | CoordsRequired
  | IssueNotFound
  | Unhandled

text \<open>The credential \<^verbatim>\<open>jwt.sign({phone, role}, JWT_SECRET, {expiresIn: "2h"})\<close>, and the
  claims \<^verbatim>\<open>req.user\<close> that \<^verbatim>\<open>auth\<close> reads back from it.\<close>

record claims =
  c_phone :: string
  c_role :: string

datatype success =
    OtpSent
  | Verified claims string
  | IssueCreated int
  | StatusUpdated jsval

type_synonym reply = "failure + success"

section \<open>OTP: start and verify\<close>

text \<open>
  \<^verbatim>\<open>POST /auth/otp/start\<close>. The parameters are the configuration and the gateway, the
  clock reading \<^verbatim>\<open>now.getTime()\<close> in milliseconds, the random draw \<open>rnd\<close> and the
  \<^verbatim>\<open>phone\<close> field of the body. The draw is taken where the source leaves double
  arithmetic: \<open>rnd\<close> is the double that \<^verbatim>\<open>100000 + Math.random() * 900000\<close>
  evaluates to, and the handler applies \<^verbatim>\<open>Math.floor\<close> and \<^verbatim>\<open>String\<close> to it, both
  exact on a double. \<^verbatim>\<open>deltaSec\<close> and the wait are computed in
  exact arithmetic: for a difference of whole milliseconds between 0 and 45000 the
  double \<^verbatim>\<open>45 - deltaSec\<close> differs from the exact value by far less than a
  thousandth, and the exact value is a whole number (then the double is exact) or at least
  a thousandth away from one, so the comparison with 45 and \<^verbatim>\<open>Math.ceil\<close> give the
  same results.
\<close>

definition deltaSec :: "int \<Rightarrow> otp \<Rightarrow> real" where
  "deltaSec now existing = real_of_int (now - createdAt existing) / 1000"

definition upsert_otp :: "string \<Rightarrow> string \<Rightarrow> int \<Rightarrow> int \<Rightarrow> store \<Rightarrow> store" where
  "upsert_otp phone c expires now s =
     (case otp_tbl s phone of
        Some existing \<Rightarrow>
          s\<lparr>otp_tbl := (otp_tbl s)(phone \<mapsto>
              existing\<lparr>code := c, expiresAt := expires, createdAt := now, attempts := 0\<rparr>)\<rparr>
      | None \<Rightarrow>
          s\<lparr>otp_tbl := (otp_tbl s)(phone \<mapsto>
              \<lparr>code = c, expiresAt = expires, createdAt = now, attempts = 0\<rparr>)\<rparr>)"

definition new_code :: "real \<Rightarrow> string" where
  "new_code rnd = show_int \<lfloor>rnd\<rfloor>"

text \<open>The handler from the draw of the code on (lines 125 to 140), reached when the
  throttle lets the request through.\<close>

definition issue_code :: "config \<Rightarrow> gateway \<Rightarrow> int \<Rightarrow> real \<Rightarrow> string \<Rightarrow> store \<Rightarrow> reply \<times> store" where
  "issue_code cfg gw now rnd phone s =
     (let c = new_code rnd;
          expires = now + 5 * 60 * 1000;
          s' = upsert_otp phone c expires now s;
          e164 = toE164 phone;
          sent = sendSms cfg gw e164 (''Your Pakari OTP is '' @ c @ ''. Valid for 5 minutes.'')
      in if \<not> ok sent \<and> \<not> dev sent
         then (Inl (FailedToSend (case error sent of
                                     None \<Rightarrow> None
                                   | Some t \<Rightarrow> (if t = [] then None else Some t))), s')
         else (Inr OtpSent, s'))"

definition post_auth_otp_start ::
  "config \<Rightarrow> gateway \<Rightarrow> int \<Rightarrow> real \<Rightarrow> string option \<Rightarrow> store \<Rightarrow> reply \<times> store" where
  "post_auth_otp_start cfg gw now rnd rawPhone s =
     (if falsy_str rawPhone then (Inl PhoneRequired, s)
      else
        let phone = trim (String_of rawPhone) in
        (case otp_tbl s phone of
           Some existing \<Rightarrow>
             if deltaSec now existing < 45
             then (Inl (PleaseWait \<lceil>45 - deltaSec now existing\<rceil>), s)
             else issue_code cfg gw now rnd phone s
         | None \<Rightarrow> issue_code cfg gw now rnd phone s))"

text \<open>
  \<^verbatim>\<open>POST /auth/otp/verify\<close>, with the clock reading and the \<^verbatim>\<open>phone\<close> and
  \<^verbatim>\<open>code\<close> fields of the body.
\<close>

definition upsert_user_role :: "string \<Rightarrow> string \<Rightarrow> store \<Rightarrow> store" where
  "upsert_user_role phone r s =
     (case user_tbl s phone of
        Some u \<Rightarrow> s\<lparr>user_tbl := (user_tbl s)(phone \<mapsto> u\<lparr>role := r\<rparr>)\<rparr>
      | None \<Rightarrow> s\<lparr>user_tbl := (user_tbl s)(phone \<mapsto> \<lparr>uid = user_seq s, role = r\<rparr>),
                 user_seq := user_seq s + 1\<rparr>)"

definition post_auth_otp_verify ::
  "int \<Rightarrow> string option \<Rightarrow> string option \<Rightarrow> store \<Rightarrow> reply \<times> store" where
  "post_auth_otp_verify now rawPhone rawCode s =
     (if falsy_str rawPhone \<or> falsy_str rawCode then (Inl PhoneAndCodeRequired, s)
      else
        let phone = trim (String_of rawPhone);
            c = trim (String_of rawCode)
        in
        (case otp_tbl s phone of
           None \<Rightarrow> (Inl StartOtpFirst, s)
         | Some row \<Rightarrow>
             if now > expiresAt row then (Inl OtpExpired, s)
             else if attempts row \<ge> 5 then (Inl TooManyAttempts, s)
             else if code row \<noteq> c
             then (Inl InvalidOtp,
                   s\<lparr>otp_tbl := (otp_tbl s)(phone \<mapsto> row\<lparr>attempts := attempts row + 1\<rparr>)\<rparr>)
             else
               let s1 = s\<lparr>otp_tbl := (otp_tbl s)(phone := None)\<rparr>;
                   r = (if phone = ''8888888888'' then ''admin'' else ''citizen'');
                   s2 = upsert_user_role phone r s1
               in (Inr (Verified \<lparr>c_phone = phone, c_role = r\<rparr> r), s2)))"

section \<open>Issues: create and update status\<close>

text \<open>
  \<^verbatim>\<open>POST /issues\<close>, behind \<^verbatim>\<open>auth\<close>: the parameters are the range of the integer
  column type, the verified claims \<^verbatim>\<open>req.user\<close> and the parsed body. The handler
  awaits its writes one after the other, outside any transaction and any \<^verbatim>\<open>try\<close>:
  the user upsert, \<^verbatim>\<open>prisma.issue.create\<close>, \<^verbatim>\<open>prisma.attachment.createMany\<close>
  (one call for all rows, made only when there is a row) and \<^verbatim>\<open>prisma.event.create\<close>.
  When one of them throws, the handler ends there with \<open>Unhandled\<close> and the earlier
  writes remain.
\<close>

definition upsert_user_keep :: "string \<Rightarrow> string \<Rightarrow> store \<Rightarrow> user \<times> store" where
  "upsert_user_keep phone r s =
     (case user_tbl s phone of
        Some u \<Rightarrow> (u, s)
      | None \<Rightarrow>
          (let u = \<lparr>uid = user_seq s, role = r\<rparr>
           in (u, s\<lparr>user_tbl := (user_tbl s)(phone \<mapsto> u), user_seq := user_seq s + 1\<rparr>)))"

definition keep_ref :: "jsval \<Rightarrow> bool" where
  "keep_ref a = (truthy a \<and> truthy (field a ''filename'')
                 \<and> typeof (field a ''size'') = ''number'' \<and> truthy (field a ''mime''))"

definition attachment_rows :: "int \<Rightarrow> jsval \<Rightarrow> attachment list" where
  "attachment_rows iid attachments =
     (case attachments of
        Arr xs \<Rightarrow>
          (if xs \<noteq> [] then
             map (\<lambda>a. \<lparr>att_issueId = iid, filename = field a ''filename'',
                        mime = field a ''mime'', size = field a ''size''\<rparr>)
                 (filter keep_ref xs)
           else [])
      | _ \<Rightarrow> [])"

definition post_issues :: "(int \<Rightarrow> bool) \<Rightarrow> claims \<Rightarrow> jsval \<Rightarrow> store \<Rightarrow> reply \<times> store" where
  "post_issues int_fits req_user req_body s =
     (let body = js_or req_body (Obj []);
          cat = field body ''category'';
          descr = field_default body ''description'' (Str []);
          coords = field body ''coords'';
          attachments = field_default body ''attachments'' (Arr [])
      in
      if \<not> truthy cat \<or> \<not> truthy coords
         \<or> typeof (field coords ''lat'') \<noteq> ''number''
         \<or> typeof (field coords ''lng'') \<noteq> ''number''
      then (Inl CoordsRequired, s)
      else
        let userPhone = (if c_phone req_user \<noteq> [] then Some (c_phone req_user) else None);
            (usr, s1) = (case userPhone of
                           Some p \<Rightarrow>
                             (let (u, t) = upsert_user_keep p
                                (if c_role req_user \<noteq> [] then c_role req_user else ''citizen'') s
                              in (Some u, t))
                         | None \<Rightarrow> (None, s));
            row = \<lparr>category = cat, description = descr,
                   lat = field coords ''lat'', lng = field coords ''lng'',
                   status = Str ''Created'', createdById = map_option uid usr\<rparr>
        in
        if \<not> issue_row_ok row then (Inl Unhandled, s1)
        else
          let iid = issue_seq s1;
              s2 = s1\<lparr>issue_tbl := (issue_tbl s1)(iid \<mapsto> row), issue_seq := iid + 1\<rparr>;
              rows = attachment_rows iid attachments
          in
          if \<not> list_all (attachment_row_ok int_fits) rows then (Inl Unhandled, s2)
          else
            let s3 = s2\<lparr>attachment_tbl := attachment_tbl s2 @ rows\<rparr>;
                s4 = s3\<lparr>event_tbl := event_tbl s3 @
                       [\<lparr>ev_issueId = iid, ev_status = Str ''Created'', byPhone = userPhone\<rparr>]\<rparr>
            in (Inr (IssueCreated iid), s4))"

text \<open>
  \<^verbatim>\<open>POST /issues/:id/status\<close>, behind \<^verbatim>\<open>auth\<close>; \<^verbatim>\<open>Number(req.params.id)\<close> is
  taken as the integer it denotes. The update and the creation of the event are two
  awaited writes, again outside any transaction and any \<^verbatim>\<open>try\<close>.
\<close>

definition post_issues_status :: "claims \<Rightarrow> int \<Rightarrow> jsval \<Rightarrow> store \<Rightarrow> reply \<times> store" where
  "post_issues_status req_user iid req_body s =
     (let st = field_default (js_or req_body (Obj [])) ''status'' (Str ''Assigned'') in
      case issue_tbl s iid of
        None \<Rightarrow> (Inl IssueNotFound, s)
      | Some existing \<Rightarrow>
          (case text_update st of
             None \<Rightarrow> (Inl Unhandled, s)
           | Some written \<Rightarrow>
               (let s1 = s\<lparr>issue_tbl := (issue_tbl s)(iid \<mapsto> existing\<lparr>status := written\<rparr>)\<rparr>
                in
                if \<not> text_ok st then (Inl Unhandled, s1)
                else
                  let s2 = s1\<lparr>event_tbl := event_tbl s1 @
                            [\<lparr>ev_issueId = iid, ev_status = st,
                              byPhone = (if c_phone req_user \<noteq> [] then Some (c_phone req_user)
                                         else None)\<rparr>]\<rparr>
                  in (Inr (StatusUpdated st), s2))))"

section \<open>Properties of the store and of request bodies\<close>

text \<open>
  The status carried by the most recently appended event of an issue, and the invariant
  that every issue's \<^verbatim>\<open>status\<close> column equals it.
\<close>

definition latest_status :: "store \<Rightarrow> int \<Rightarrow> jsval option" where
  "latest_status s i =
     (let es = filter (\<lambda>e. ev_issueId e = i) (event_tbl s)
      in if es = [] then None else Some (ev_status (last es)))"


text \<open>
  The specification's wording for attachment references, to be compared with the filter of
  the handler (\<open>keep_ref\<close>): a reference is well formed when it is an object whose
  \<^verbatim>\<open>filename\<close> is a non-empty string, whose \<^verbatim>\<open>mime\<close> is a non-empty string and
  whose \<^verbatim>\<open>size\<close> is a finite number.
\<close>

definition has_text :: "(string \<times> jsval) list \<Rightarrow> string \<Rightarrow> bool" where
  "has_text fs k = (case map_of fs k of Some (Str t) \<Rightarrow> t \<noteq> [] | _ \<Rightarrow> False)"

definition has_number :: "(string \<times> jsval) list \<Rightarrow> string \<Rightarrow> bool" where
  "has_number fs k = (case map_of fs k of Some (Num (Finite x)) \<Rightarrow> True | _ \<Rightarrow> False)"

definition well_formed_ref :: "jsval \<Rightarrow> bool" where
  "well_formed_ref a =
     (case a of
        Obj fs \<Rightarrow> has_text fs ''filename'' \<and> has_text fs ''mime'' \<and> has_number fs ''size''
      | _ \<Rightarrow> False)"

text \<open>
  What the guard of \<^verbatim>\<open>POST /issues\<close> amounts to: the request is turned away unless
  the category is non-empty and both coordinates are numbers, of whatever value.
\<close>

definition is_number :: "jsval \<Rightarrow> bool" where
  "is_number v = (case v of Num n \<Rightarrow> True | _ \<Rightarrow> False)"

definition fails_validation :: "jsval \<Rightarrow> bool" where
  "fails_validation b =
     (let body = js_or b (Obj []) in
      \<not> (truthy (field body ''category'')
         \<and> is_number (field (field body ''coords'') ''lat'')
         \<and> is_number (field (field body ''coords'') ''lng'')))"

text \<open>
  The requests whose \<^verbatim>\<open>Issue\<close> row the store accepts: the guard passes, category
  and description are strings and both coordinates are finite. The creation as a whole
  is accepted when, besides, every reference that the filter keeps gives a row that fits
  the \<^verbatim>\<open>Attachment\<close> columns.
\<close>

definition issue_accepted :: "jsval \<Rightarrow> bool" where
  "issue_accepted b =
     (let body = js_or b (Obj []) in
      truthy (field body ''category'') \<and> text_ok (field body ''category'')
      \<and> text_ok (field_default body ''description'' (Str []))
      \<and> real_ok (field (field body ''coords'') ''lat'')
      \<and> real_ok (field (field body ''coords'') ''lng''))"


section \<open>Example configurations, stores and requests\<close>

definition dev_config :: config where
  "dev_config = \<lparr>DEV_OTP_MODE = True, smsClient = False, TWILIO_FROM = []\<rparr>"

definition twilio_config :: config where
  "twilio_config = \<lparr>DEV_OTP_MODE = False, smsClient = True, TWILIO_FROM = ''+15005550006''\<rparr>"

definition gw_up :: gateway where
  "gw_up to from body = Delivered"

definition gw_down :: gateway where
  "gw_down to from body = Threw (Some ''unreachable'')"

definition otp_row :: "int \<Rightarrow> otp" where
  "otp_row n = \<lparr>code = ''123456'', expiresAt = 300000, createdAt = 0, attempts = n\<rparr>"

definition otp_store :: "string \<Rightarrow> int \<Rightarrow> store" where
  "otp_store phone n = empty_store\<lparr>otp_tbl := [phone \<mapsto> otp_row n]\<rparr>"

definition citizen :: claims where
  "citizen = \<lparr>c_phone = ''9999999999'', c_role = ''citizen''\<rparr>"

definition pothole :: "jsval \<Rightarrow> jsval \<Rightarrow> jsval" where
  "pothole latitude attachments =
     Obj [(''category'', Str ''Pothole''),
          (''coords'', Obj [(''lat'', latitude), (''lng'', Num (Finite (776 / 10)))]),
          (''attachments'', attachments)]"


definition one_issue_store :: store where
  "one_issue_store = empty_store
     \<lparr>issue_tbl := [1 \<mapsto> \<lparr>category = Str ''Pothole'', description = Str [],
                          lat = Num (Finite (129 / 10)), lng = Num (Finite (776 / 10)),
                          status = Str ''Created'', createdById = None\<rparr>],
      issue_seq := 2,
      event_tbl := [\<lparr>ev_issueId = 1, ev_status = Str ''Created'', byPhone = None\<rparr>]\<rparr>"

definition int32 :: "int \<Rightarrow> bool" where
  "int32 n = (- 2147483648 \<le> n \<and> n \<le> 2147483647)"

definition photo_named :: "jsval \<Rightarrow> jsval" where
  "photo_named f = Obj [(''filename'', f), (''mime'', Str ''image/png''), (''size'', Num (Finite 1024))]"

section \<open>Basic facts: strings and the decimal rendering\<close>

lemma falsy_str_Some [simp]: "falsy_str (Some t) = (t = [])"
  by (simp add: falsy_str_def)

lemma String_of_Some [simp]: "String_of (Some t) = t"
  by (simp add: String_of_def)

lemma plus_not_digit: "\<not> is_digit CHR ''+''"
  by (simp add: is_digit_def)

lemma nine_digit: "is_digit CHR ''9''"
  by (simp add: is_digit_def)

lemma one_digit: "is_digit CHR ''1''"
  by (simp add: is_digit_def)

lemma digit_char_is_digit: "k < 10 \<Longrightarrow> is_digit (digit_char k)"
  unfolding is_digit_def digit_char_def by (intro nth_mem) simp

lemma show_nat_last: "show_nat n \<noteq> [] \<and> is_digit (last (show_nat n))"
  by (subst show_nat.simps, subst (2) show_nat.simps) (simp add: digit_char_is_digit)

lemma show_nat_hd: "is_digit (hd (show_nat n))"
proof (induction n rule: show_nat.induct)
  case (1 n)
  show ?case
  proof (cases "n < 10")
    case True
    then show ?thesis by (subst show_nat.simps) (simp add: digit_char_is_digit)
  next
    case False
    with 1 have "is_digit (hd (show_nat (n div 10)))" by simp
    with False show ?thesis
      using show_nat_last [of "n div 10"] by (subst show_nat.simps) simp
  qed
qed

lemma digit_not_space: "is_digit c \<Longrightarrow> \<not> js_space c"
  by (auto simp: is_digit_def js_space_def)

lemma trim_id:
  assumes "s \<noteq> []" and "\<not> js_space (hd s)" and "\<not> js_space (last s)"
  shows "trim s = s"
proof -
  have "dropWhile js_space s = s"
    using assms by (cases s) simp_all
  moreover have "dropWhile js_space (rev s) = rev s"
    using assms by (cases "rev s") (simp_all add: last_rev hd_rev[symmetric])
  ultimately show ?thesis by (simp add: trim_def)
qed

lemma new_code_trim: "new_code rnd \<noteq> [] \<and> trim (new_code rnd) = new_code rnd"
proof -
  let ?i = "\<lfloor>rnd\<rfloor>"
  have ne: "show_int ?i \<noteq> []"
    using show_nat_last by (simp add: show_int_def)
  have h: "\<not> js_space (hd (show_int ?i))"
    using show_nat_hd digit_not_space by (simp add: show_int_def js_space_def)
  have l: "\<not> js_space (last (show_int ?i))"
    using show_nat_last digit_not_space by (simp add: show_int_def)
  show ?thesis using trim_id [OF ne h l] ne by (simp add: new_code_def)
qed

lemma trim_nines: "trim ''9999999999'' = ''9999999999''"
  by (simp add: trim_def js_space_def)

lemma trim_eights: "trim ''8888888888'' = ''8888888888''"
  by (simp add: trim_def js_space_def)

lemma trim_code: "trim ''123456'' = ''123456''"
  by (simp add: trim_def js_space_def)

section \<open>Identity normalisation\<close>

text \<open>
  Claim C7, as the specification states it: every raw phone string that begins with
  \<open>+\<close> is returned unchanged by \<open>toE164\<close>, however many digits it contains. The
  source tests the digit count first: a string with \<open>+\<close> and exactly ten digits is
  rebuilt with the country code in front, so the statement fails.
\<close>

theorem toE164_plus_ten_digits_rewritten:
  "startsWith ''+4412345678'' ''+'' \<and> toE164 ''+4412345678'' = ''+914412345678''
   \<and> toE164 ''+4412345678'' \<noteq> ''+4412345678''"
  by (simp add: toE164_def is_digit_def startsWith_def)

text \<open>
  Claim C7, amended: a raw phone string that begins with \<open>+\<close> is returned unchanged
  exactly when its digits are not ten in number, are not eleven with a leading \<open>0\<close>,
  and, if they are twelve with a leading \<open>91\<close>, the string is already \<open>+\<close> followed by
  nothing but those digits. In the three remaining cases the result is rebuilt from the
  digits: \<open>+91\<close> and the ten digits; \<open>+\<close> and the twelve digits; \<open>+91\<close> and the
  ten digits after the leading \<open>0\<close>.
\<close>

theorem toE164_plus_unchanged_iff:
  assumes "startsWith phone ''+''"
  shows "(toE164 phone = phone) =
         (length (filter is_digit phone) \<noteq> 10
          \<and> \<not> (startsWith (filter is_digit phone) ''0'' \<and> length (filter is_digit phone) = 11)
          \<and> (startsWith (filter is_digit phone) ''91'' \<and> length (filter is_digit phone) = 12
               \<longrightarrow> phone = ''+'' @ filter is_digit phone))
     \<and> (length (filter is_digit phone) = 10 \<longrightarrow>
          toE164 phone = ''+91'' @ filter is_digit phone)
     \<and> (startsWith (filter is_digit phone) ''91'' \<and> length (filter is_digit phone) = 12 \<longrightarrow>
          toE164 phone = ''+'' @ filter is_digit phone)
     \<and> (startsWith (filter is_digit phone) ''0'' \<and> length (filter is_digit phone) = 11 \<longrightarrow>
          toE164 phone = ''+91'' @ drop 1 (filter is_digit phone))"
proof -
  let ?d = "filter is_digit phone"
  have a: "''+91'' @ ?d \<noteq> phone" if "length ?d = 10"
  proof
    assume "''+91'' @ ?d = phone"
    then have "filter is_digit (''+91'' @ ?d) = ?d" by simp
    moreover have "filter is_digit (''+91'' @ ?d) = ''91'' @ ?d"
      by (simp add: plus_not_digit nine_digit one_digit)
    ultimately have "length ?d = length (''91'' @ ?d)" by simp
    then show False by simp
  qed
  have b: "''+91'' @ drop 1 ?d \<noteq> phone" if "length ?d = 11"
  proof
    assume e: "''+91'' @ drop 1 ?d = phone"
    have "filter is_digit (drop 1 ?d) = drop 1 ?d"
      by (rule filter_True) (auto dest: in_set_dropD)
    then have "filter is_digit (''+91'' @ drop 1 ?d) = ''91'' @ drop 1 ?d"
      by (simp add: plus_not_digit nine_digit one_digit)
    then have "length (filter is_digit (''+91'' @ drop 1 ?d)) = 12"
      using that by simp
    moreover have "length (filter is_digit (''+91'' @ drop 1 ?d)) = 11"
      using that by (simp only: e)
    ultimately show False by simp
  qed
  have unchanged: "(toE164 phone = phone) =
         (length ?d \<noteq> 10
          \<and> \<not> (startsWith ?d ''0'' \<and> length ?d = 11)
          \<and> (startsWith ?d ''91'' \<and> length ?d = 12 \<longrightarrow> phone = ''+'' @ ?d))"
    using assms a b by (auto simp: toE164_def Let_def)
  have ten: "length ?d = 10 \<longrightarrow> toE164 phone = ''+91'' @ ?d"
    by (simp add: toE164_def Let_def)
  have twelve: "startsWith ?d ''91'' \<and> length ?d = 12 \<longrightarrow> toE164 phone = ''+'' @ ?d"
    by (simp add: toE164_def Let_def)
  have eleven: "startsWith ?d ''0'' \<and> length ?d = 11 \<longrightarrow> toE164 phone = ''+91'' @ drop 1 ?d"
    by (simp add: toE164_def Let_def)
  from unchanged ten twelve eleven show ?thesis by (intro conjI)
qed

theorem toE164_plus_unchanged_iff_witness:
  "startsWith ''+14155552671'' ''+'' \<and> toE164 ''+14155552671'' = ''+14155552671''
   \<and> startsWith ''+91 98765 43210'' ''+'' \<and> toE164 ''+91 98765 43210'' = ''+919876543210''"
proof -
  have h: "startsWith ''+14155552671'' ''+''"
    by (simp add: startsWith_def)
  have d: "filter is_digit ''+14155552671'' = ''14155552671''"
    by (simp add: is_digit_def)
  have h2: "startsWith ''+91 98765 43210'' ''+''"
    by (simp add: startsWith_def)
  have d2: "filter is_digit ''+91 98765 43210'' = ''919876543210''"
    by (simp add: is_digit_def)
  from toE164_plus_unchanged_iff [OF h, unfolded d]
  have one: "toE164 ''+14155552671'' = ''+14155552671''"
    by (simp add: startsWith_def)
  from toE164_plus_unchanged_iff [OF h2, unfolded d2]
  have two: "toE164 ''+91 98765 43210'' = ''+919876543210''"
    by (simp add: startsWith_def)
  from h one h2 two show ?thesis by (intro conjI)
qed

section \<open>Requesting a code\<close>

lemma wait_positive:
  assumes "0 \<le> d" and "d < 45000"
  shows "0 < \<lceil>45 - real_of_int d / 1000\<rceil>"
proof -
  have "0 < 45 - real_of_int d / 1000" using assms by simp
  then show ?thesis by (simp only: zero_less_ceiling)
qed

lemma wait_at_most:
  assumes "0 \<le> d"
  shows "\<lceil>45 - real_of_int d / 1000\<rceil> \<le> 45"
proof -
  have "45 - real_of_int d / 1000 \<le> 45" using assms by simp
  then show ?thesis by (simp add: ceiling_le_iff)
qed

lemma wait_remaining:
  "\<lceil>45 - real_of_int d / 1000\<rceil> = \<lceil>real_of_int (45000 - d) / 1000\<rceil>"
proof -
  have "45 - real_of_int d / 1000 = real_of_int (45000 - d) / 1000" by simp
  then show ?thesis by (rule arg_cong)
qed

lemma start_throttled:
  assumes "raw \<noteq> []" and "otp_tbl s (trim raw) = Some r" and "now - createdAt r < 45000"
  shows "post_auth_otp_start cfg gw now rnd (Some raw) s =
           (Inl (PleaseWait \<lceil>45 - real_of_int (now - createdAt r) / 1000\<rceil>), s)"
  using assms by (simp add: post_auth_otp_start_def deltaSec_def)

lemma start_let_through:
  assumes "raw \<noteq> []" and "otp_tbl s (trim raw) = Some r" and "45000 \<le> now - createdAt r"
  shows "post_auth_otp_start cfg gw now rnd (Some raw) s = issue_code cfg gw now rnd (trim raw) s"
  using assms by (simp add: post_auth_otp_start_def deltaSec_def)

lemma start_no_record:
  assumes "raw \<noteq> []" and "otp_tbl s (trim raw) = None"
  shows "post_auth_otp_start cfg gw now rnd (Some raw) s = issue_code cfg gw now rnd (trim raw) s"
  using assms by (simp add: post_auth_otp_start_def)

lemma otp_after_issue:
  "otp_tbl (snd (issue_code cfg gw now rnd phone s)) phone =
     Some \<lparr>code = new_code rnd, expiresAt = now + 300000, createdAt = now, attempts = 0\<rparr>"
  by (simp add: issue_code_def Let_def upsert_otp_def split: option.split)

text \<open>
  Claim C2: when a record is stored for the identity and the request comes at or after
  its \<open>createdAt\<close> and less than 45 seconds (45000 ms) after it, the request fails with
  \<open>PleaseWait wait\<close> (RateLimited), where \<open>wait\<close> is the remaining time in seconds
  rounded up, \<open>0 < wait \<le> 45\<close>, and the store is returned as it was: no code is
  generated or stored.
\<close>

theorem start_within_cooldown_rate_limited:
  assumes "raw \<noteq> []" and "otp_tbl s (trim raw) = Some r"
    and "createdAt r \<le> now" and "now - createdAt r < 45000"
  shows "\<exists>wait. post_auth_otp_start cfg gw now rnd (Some raw) s = (Inl (PleaseWait wait), s)
           \<and> wait = \<lceil>real_of_int (45000 - (now - createdAt r)) / 1000\<rceil>
           \<and> 0 < wait \<and> wait \<le> 45"
proof -
  let ?d = "now - createdAt r"
  have d: "0 \<le> ?d" "?d < 45000" using assms by simp_all
  show ?thesis
    using start_throttled [OF assms(1,2,4)] wait_positive [OF d] wait_at_most [OF d(1)]
      wait_remaining [of ?d]
    by simp
qed

theorem start_within_cooldown_rate_limited_witness:
  "otp_tbl (otp_store ''9999999999'' 0) (trim '' 9999999999 '') = Some (otp_row 0)
   \<and> createdAt (otp_row 0) \<le> 44001 \<and> 44001 - createdAt (otp_row 0) < 45000
   \<and> post_auth_otp_start dev_config gw_up 44001 0 (Some '' 9999999999 '') (otp_store ''9999999999'' 0)
        = (Inl (PleaseWait 1), otp_store ''9999999999'' 0)"
proof -
  have h: "'' 9999999999 '' \<noteq> []"
    "otp_tbl (otp_store ''9999999999'' 0) (trim '' 9999999999 '') = Some (otp_row 0)"
    "createdAt (otp_row 0) \<le> 44001" "44001 - createdAt (otp_row 0) < 45000"
    by (simp_all add: otp_store_def otp_row_def trim_def js_space_def)
  from start_within_cooldown_rate_limited [OF h, of dev_config gw_up 0] h
  show ?thesis by (simp add: otp_row_def)
qed

text \<open>
  Claim C5: with real delivery configured (no local echo) and the gateway failing, a
  request that passes the throttle fails with \<open>FailedToSend\<close> (DeliveryError), yet the
  freshly generated record is stored with \<open>createdAt = now\<close>; a further request for the
  identity at a time \<open>now2\<close> less than 45 seconds later fails with \<open>PleaseWait\<close>
  (RateLimited), whatever the configuration and gateway then are.
\<close>

theorem delivery_failure_keeps_record:
  assumes "raw \<noteq> []"
    and "\<not> DEV_OTP_MODE cfg" and "smsClient cfg" and "TWILIO_FROM cfg \<noteq> []"
    and "gw (toE164 (trim raw)) (TWILIO_FROM cfg)
            (''Your Pakari OTP is '' @ new_code rnd @ ''. Valid for 5 minutes.'') = Threw m"
    and "otp_tbl s (trim raw) = None
         \<or> (\<exists>r. otp_tbl s (trim raw) = Some r \<and> 45000 \<le> now - createdAt r)"
    and "now \<le> now2" and "now2 - now < 45000"
  shows "\<exists>s' wait. post_auth_otp_start cfg gw now rnd (Some raw) s
              = (Inl (FailedToSend (Some (or_str m ''twilio_failed''))), s')
           \<and> otp_tbl s' (trim raw) = Some \<lparr>code = new_code rnd, expiresAt = now + 300000,
                                            createdAt = now, attempts = 0\<rparr>
           \<and> post_auth_otp_start cfg2 gw2 now2 rnd2 (Some raw) s' = (Inl (PleaseWait wait), s')
           \<and> 0 < wait \<and> wait \<le> 45"
proof -
  let ?s' = "snd (issue_code cfg gw now rnd (trim raw) s)"
  let ?w = "\<lceil>45 - real_of_int (now2 - now) / 1000\<rceil>"
  have st: "post_auth_otp_start cfg gw now rnd (Some raw) s = issue_code cfg gw now rnd (trim raw) s"
    using assms(6) start_let_through [OF assms(1)] start_no_record [OF assms(1)] by blast
  have ne: "or_str m ''twilio_failed'' \<noteq> []"
    by (simp add: or_str_def split: option.split)
  have fl: "fst (issue_code cfg gw now rnd (trim raw) s)
      = Inl (FailedToSend (Some (or_str m ''twilio_failed'')))"
    using assms(2-5) ne by (simp add: issue_code_def Let_def sendSms_def)
  have stored: "otp_tbl ?s' (trim raw) = Some \<lparr>code = new_code rnd, expiresAt = now + 300000,
                                            createdAt = now, attempts = 0\<rparr>"
    by (rule otp_after_issue)
  have again: "post_auth_otp_start cfg2 gw2 now2 rnd2 (Some raw) ?s' = (Inl (PleaseWait ?w), ?s')"
    using start_throttled [OF assms(1) stored, of now2] assms(8) by simp
  have d: "0 \<le> now2 - now" using assms(7) by simp
  have "0 < ?w" "?w \<le> 45"
    using wait_positive [OF d assms(8)] wait_at_most [OF d] by simp_all
  with again show ?thesis using st fl stored
    by (metis prod.collapse)
qed

theorem delivery_failure_keeps_record_witness:
  "\<not> DEV_OTP_MODE twilio_config \<and> smsClient twilio_config \<and> TWILIO_FROM twilio_config \<noteq> []
   \<and> otp_tbl empty_store (trim ''9999999999'') = None
   \<and> (\<exists>s' wait. post_auth_otp_start twilio_config gw_down 0 (5500005 / 10) (Some ''9999999999'') empty_store
              = (Inl (FailedToSend (Some ''unreachable'')), s')
           \<and> otp_tbl s' (trim ''9999999999'')
               = Some \<lparr>code = new_code (5500005 / 10), expiresAt = 300000, createdAt = 0, attempts = 0\<rparr>
           \<and> post_auth_otp_start dev_config gw_up 44000 0 (Some ''9999999999'') s'
               = (Inl (PleaseWait wait), s')
           \<and> 0 < wait \<and> wait \<le> 45)"
proof -
  have h: "''9999999999'' \<noteq> []"
    "\<not> DEV_OTP_MODE twilio_config" "smsClient twilio_config" "TWILIO_FROM twilio_config \<noteq> []"
    "gw_down (toE164 (trim ''9999999999'')) (TWILIO_FROM twilio_config)
       (''Your Pakari OTP is '' @ new_code (5500005 / 10) @ ''. Valid for 5 minutes.'')
       = Threw (Some ''unreachable'')"
    "otp_tbl empty_store (trim ''9999999999'') = None
       \<or> (\<exists>r. otp_tbl empty_store (trim ''9999999999'') = Some r \<and> 45000 \<le> 0 - createdAt r)"
    "(0::int) \<le> 44000" "(44000::int) - 0 < 45000"
    by (simp_all add: twilio_config_def gw_down_def empty_store_def)
  from delivery_failure_keeps_record [where gw = gw_down and cfg = twilio_config
      and raw = "''9999999999''" and rnd = "5500005 / 10" and m = "Some ''unreachable''"
      and s = empty_store and now = 0 and ?now2.0 = 44000
      and ?cfg2.0 = dev_config and ?gw2.0 = gw_up and ?rnd2.0 = 0, OF h]
  have "\<exists>s' wait. post_auth_otp_start twilio_config gw_down 0 (5500005 / 10) (Some ''9999999999'') empty_store
              = (Inl (FailedToSend (Some ''unreachable'')), s')
           \<and> otp_tbl s' (trim ''9999999999'')
               = Some \<lparr>code = new_code (5500005 / 10), expiresAt = 300000, createdAt = 0, attempts = 0\<rparr>
           \<and> post_auth_otp_start dev_config gw_up 44000 0 (Some ''9999999999'') s'
               = (Inl (PleaseWait wait), s')
           \<and> 0 < wait \<and> wait \<le> 45"
    by (simp add: or_str_def)
  with h(2-4) show ?thesis by (simp add: empty_store_def)
qed

section \<open>Verifying a code\<close>

lemma verify_locked:
  assumes "p \<noteq> []" and "otp_tbl s (trim p) = Some r" and "5 \<le> attempts r"
  shows "\<exists>e. post_auth_otp_verify t (Some p) c s = (Inl e, s)"
  using assms by (simp add: post_auth_otp_verify_def Let_def)

lemma verify_match:
  assumes "p \<noteq> []" and "c \<noteq> []" and "otp_tbl s (trim p) = Some r" and "now \<le> expiresAt r"
    and "attempts r < 5" and "code r = trim c"
  shows "post_auth_otp_verify now (Some p) (Some c) s =
     (Inr (Verified \<lparr>c_phone = trim p,
                     c_role = (if trim p = ''8888888888'' then ''admin'' else ''citizen'')\<rparr>
                   (if trim p = ''8888888888'' then ''admin'' else ''citizen'')),
      upsert_user_role (trim p) (if trim p = ''8888888888'' then ''admin'' else ''citizen'')
        (s\<lparr>otp_tbl := (otp_tbl s)(trim p := None)\<rparr>))"
  using assms by (simp add: post_auth_otp_verify_def Let_def)

lemma otp_tbl_upsert_user_role [simp]: "otp_tbl (upsert_user_role p r s) = otp_tbl s"
  by (simp add: upsert_user_role_def split: option.split)

lemma verify_no_record:
  assumes "p \<noteq> []" and "c \<noteq> []" and "otp_tbl s (trim p) = None"
  shows "post_auth_otp_verify t (Some p) (Some c) s = (Inl StartOtpFirst, s)"
  using assms by (simp add: post_auth_otp_verify_def Let_def)

text \<open>
  Claim C3: for a record that is not expired and whose \<open>attempts\<close> has reached 5,
  verification fails with \<open>TooManyAttempts\<close> for every submitted code, the stored code
  included, and returns the store as it was (no increment, no deletion). The record stays
  unusable: at every time and for every code a verification fails and changes nothing.
  A new request for a code, once the throttle lets it through, stores a record with
  \<open>attempts = 0\<close>, and verifying the code it drew succeeds.
\<close>

theorem verify_after_five_attempts_locked:
  assumes "p \<noteq> []" and "c \<noteq> []" and "otp_tbl s (trim p) = Some r"
    and "now \<le> expiresAt r" and "5 \<le> attempts r"
    and "45000 \<le> later - createdAt r"
  shows "post_auth_otp_verify now (Some p) (Some c) s = (Inl TooManyAttempts, s)
    \<and> (\<forall>t c'. \<exists>e. post_auth_otp_verify t (Some p) c' s = (Inl e, s))
    \<and> (\<exists>rep s' cl rl. post_auth_otp_start cfg gw later rnd (Some p) s = (rep, s')
          \<and> map_option attempts (otp_tbl s' (trim p)) = Some 0
          \<and> fst (post_auth_otp_verify later (Some p) (Some (new_code rnd)) s')
              = Inr (Verified cl rl))"
proof -
  let ?s' = "snd (issue_code cfg gw later rnd (trim p) s)"
  have a: "post_auth_otp_verify now (Some p) (Some c) s = (Inl TooManyAttempts, s)"
    using assms(1-5) by (simp add: post_auth_otp_verify_def Let_def)
  have b: "\<forall>t c'. \<exists>e. post_auth_otp_verify t (Some p) c' s = (Inl e, s)"
    using verify_locked [OF assms(1,3,5)] by blast
  have st: "post_auth_otp_start cfg gw later rnd (Some p) s
      = (fst (issue_code cfg gw later rnd (trim p) s), ?s')"
    using start_let_through [OF assms(1,3,6)] by simp
  have stored: "otp_tbl ?s' (trim p) =
      Some \<lparr>code = new_code rnd, expiresAt = later + 300000, createdAt = later, attempts = 0\<rparr>"
    by (rule otp_after_issue)
  have "\<exists>cl rl. fst (post_auth_otp_verify later (Some p) (Some (new_code rnd)) ?s')
      = Inr (Verified cl rl)"
    using verify_match [OF assms(1) _ stored, of "new_code rnd"] new_code_trim [of rnd] by simp
  then obtain cl rl
    where v: "fst (post_auth_otp_verify later (Some p) (Some (new_code rnd)) ?s')
      = Inr (Verified cl rl)"
    by blast
  have "post_auth_otp_start cfg gw later rnd (Some p) s
        = (fst (issue_code cfg gw later rnd (trim p) s), ?s')
      \<and> map_option attempts (otp_tbl ?s' (trim p)) = Some 0
      \<and> fst (post_auth_otp_verify later (Some p) (Some (new_code rnd)) ?s') = Inr (Verified cl rl)"
    using st stored v by simp
  then have c: "\<exists>rep s' cl rl. post_auth_otp_start cfg gw later rnd (Some p) s = (rep, s')
          \<and> map_option attempts (otp_tbl s' (trim p)) = Some 0
          \<and> fst (post_auth_otp_verify later (Some p) (Some (new_code rnd)) s')
              = Inr (Verified cl rl)"
    by blast
  from a b c show ?thesis by (intro conjI)
qed

theorem verify_after_five_attempts_locked_witness:
  "otp_tbl (otp_store ''9999999999'' 5) (trim ''9999999999'') = Some (otp_row 5)
   \<and> 1000 \<le> expiresAt (otp_row 5) \<and> 5 \<le> attempts (otp_row 5)
   \<and> code (otp_row 5) = ''123456''
   \<and> post_auth_otp_verify 1000 (Some ''9999999999'') (Some ''123456'') (otp_store ''9999999999'' 5)
        = (Inl TooManyAttempts, otp_store ''9999999999'' 5)"
proof -
  have h: "''9999999999'' \<noteq> []" "''123456'' \<noteq> []"
    "otp_tbl (otp_store ''9999999999'' 5) (trim ''9999999999'') = Some (otp_row 5)"
    "1000 \<le> expiresAt (otp_row 5)" "5 \<le> attempts (otp_row 5)"
    "45000 \<le> 60000 - createdAt (otp_row 5)"
    by (simp_all add: otp_store_def otp_row_def trim_nines)
  have k: "code (otp_row 5) = ''123456''"
    by (simp add: otp_row_def)
  from verify_after_five_attempts_locked [OF h, of dev_config gw_up 550000] h k
  show ?thesis by simp
qed

text \<open>
  Claim C4: a verification that finds the record, unexpired, with fewer than 5 attempts
  and a matching code, succeeds and deletes the record; verifying the same identity and
  code again, at whatever time, fails with \<open>StartOtpFirst\<close> (NotRequested).
\<close>

theorem verify_success_consumes_code:
  assumes "p \<noteq> []" and "c \<noteq> []" and "otp_tbl s (trim p) = Some r"
    and "now \<le> expiresAt r" and "attempts r < 5" and "code r = trim c"
  shows "\<exists>cl rl s'. post_auth_otp_verify now (Some p) (Some c) s = (Inr (Verified cl rl), s')
           \<and> otp_tbl s' (trim p) = None
           \<and> (\<forall>t. post_auth_otp_verify t (Some p) (Some c) s' = (Inl StartOtpFirst, s'))"
proof -
  let ?r = "if trim p = ''8888888888'' then ''admin'' else ''citizen''"
  let ?s' = "upsert_user_role (trim p) ?r (s\<lparr>otp_tbl := (otp_tbl s)(trim p := None)\<rparr>)"
  have gone: "otp_tbl ?s' (trim p) = None" by simp
  have "\<forall>t. post_auth_otp_verify t (Some p) (Some c) ?s' = (Inl StartOtpFirst, ?s')"
    using verify_no_record [OF assms(1,2) gone] by blast
  with gone verify_match [OF assms] show ?thesis by blast
qed

theorem verify_success_consumes_code_witness:
  "otp_tbl (otp_store ''9999999999'' 4) (trim ''9999999999'') = Some (otp_row 4)
   \<and> 1000 \<le> expiresAt (otp_row 4) \<and> attempts (otp_row 4) < 5
   \<and> code (otp_row 4) = trim ''123456 ''
   \<and> (\<exists>cl rl s'. post_auth_otp_verify 1000 (Some ''9999999999'') (Some ''123456 '')
                      (otp_store ''9999999999'' 4) = (Inr (Verified cl rl), s')
           \<and> otp_tbl s' (trim ''9999999999'') = None
           \<and> (\<forall>t. post_auth_otp_verify t (Some ''9999999999'') (Some ''123456 '') s'
                  = (Inl StartOtpFirst, s')))"
proof -
  have h: "''9999999999'' \<noteq> []" "''123456 '' \<noteq> []"
    "otp_tbl (otp_store ''9999999999'' 4) (trim ''9999999999'') = Some (otp_row 4)"
    "1000 \<le> expiresAt (otp_row 4)" "attempts (otp_row 4) < 5"
    "code (otp_row 4) = trim ''123456 ''"
    by (simp_all add: otp_store_def otp_row_def trim_def js_space_def)
  from verify_success_consumes_code [OF h] h
  show ?thesis by (intro conjI)
qed

text \<open>
  Claim C9: whenever verification succeeds, the store afterwards holds a \<open>User\<close> row for
  the identity whose role is \<open>admin\<close> exactly when the identity is \<open>8888888888\<close> and
  \<open>citizen\<close> otherwise; the reply carries that same role. The request has no role
  field: the role is a function of the identity alone.
\<close>

theorem verify_success_role_from_identity:
  assumes "\<not> isl (fst (post_auth_otp_verify now rawPhone rawCode s))"
  shows "\<exists>u. user_tbl (snd (post_auth_otp_verify now rawPhone rawCode s))
                (trim (String_of rawPhone)) = Some u
           \<and> role u = (if trim (String_of rawPhone) = ''8888888888'' then ''admin'' else ''citizen'')
           \<and> (role u = ''admin'') = (trim (String_of rawPhone) = ''8888888888'')
           \<and> fst (post_auth_otp_verify now rawPhone rawCode s)
               = Inr (Verified \<lparr>c_phone = trim (String_of rawPhone), c_role = role u\<rparr> (role u))"
  using assms
  by (auto simp: post_auth_otp_verify_def Let_def upsert_user_role_def
           split: if_splits option.splits)

theorem verify_success_role_from_identity_witness:
  "\<not> isl (fst (post_auth_otp_verify 1000 (Some ''8888888888'') (Some ''123456'')
                  (otp_store ''8888888888'' 0)))
   \<and> \<not> isl (fst (post_auth_otp_verify 1000 (Some ''9999999999'') (Some ''123456'')
                  (otp_store ''9999999999'' 0)))
   \<and> map_option role (user_tbl (snd (post_auth_otp_verify 1000 (Some ''8888888888'')
          (Some ''123456'') (otp_store ''8888888888'' 0))) ''8888888888'') = Some ''admin''
   \<and> map_option role (user_tbl (snd (post_auth_otp_verify 1000 (Some ''9999999999'')
          (Some ''123456'') (otp_store ''9999999999'' 0))) ''9999999999'') = Some ''citizen''"
proof -
  have a: "\<not> isl (fst (post_auth_otp_verify 1000 (Some ''8888888888'') (Some ''123456'')
                  (otp_store ''8888888888'' 0)))"
    by (simp add: post_auth_otp_verify_def otp_store_def otp_row_def trim_eights trim_code Let_def)
  have c: "\<not> isl (fst (post_auth_otp_verify 1000 (Some ''9999999999'') (Some ''123456'')
                  (otp_store ''9999999999'' 0)))"
    by (simp add: post_auth_otp_verify_def otp_store_def otp_row_def trim_nines trim_code Let_def)
  from verify_success_role_from_identity [OF a] verify_success_role_from_identity [OF c] a c
  show ?thesis by (auto simp: trim_nines trim_eights)
qed

section \<open>Creating an issue and updating its status\<close>

lemma typeof_number: "(typeof v = ''number'') = is_number v"
  by (cases v) (simp_all add: is_number_def)

lemma number_truthy_receiver: "is_number (field c k) \<Longrightarrow> truthy c"
  by (cases c) (simp_all add: is_number_def)

lemma real_ok_is_number: "real_ok v \<Longrightarrow> is_number v"
  by (cases v) (simp_all add: real_ok_def is_number_def)

lemma text_ok_iff: "text_ok v = (\<exists>t. v = Str t)"
  by (cases v) (simp_all add: text_ok_def)

lemma text_update_Str [simp]: "text_update (Str t) = Some (Str t)"
  by (simp add: text_update_def)


lemma issue_accepted_valid: "issue_accepted b \<Longrightarrow> \<not> fails_validation b"
  by (auto simp: issue_accepted_def fails_validation_def Let_def dest: real_ok_is_number)


text \<open>The three ways the handler ends once the guard has let the request through.\<close>

lemma post_issues_passed:
  assumes "\<not> fails_validation b"
  shows "\<exists>s1 usr.
    issue_tbl s1 = issue_tbl s \<and> issue_seq s1 = issue_seq s
    \<and> attachment_tbl s1 = attachment_tbl s \<and> event_tbl s1 = event_tbl s
    \<and> otp_tbl s1 = otp_tbl s
    \<and> post_issues f u b s =
       (let body = js_or b (Obj []);
            row = \<lparr>category = field body ''category'',
                   description = field_default body ''description'' (Str []),
                   lat = field (field body ''coords'') ''lat'',
                   lng = field (field body ''coords'') ''lng'',
                   status = Str ''Created'', createdById = usr\<rparr>;
            rows = attachment_rows (issue_seq s) (field_default body ''attachments'' (Arr []))
        in if \<not> issue_row_ok row then (Inl Unhandled, s1)
           else if \<not> list_all (attachment_row_ok f) rows
           then (Inl Unhandled,
                 s1\<lparr>issue_tbl := (issue_tbl s)(issue_seq s \<mapsto> row),
                    issue_seq := issue_seq s + 1\<rparr>)
           else (Inr (IssueCreated (issue_seq s)),
                 s1\<lparr>issue_tbl := (issue_tbl s)(issue_seq s \<mapsto> row),
                    issue_seq := issue_seq s + 1,
                    attachment_tbl := attachment_tbl s @ rows,
                    event_tbl := event_tbl s @
                      [\<lparr>ev_issueId = issue_seq s, ev_status = Str ''Created'',
                        byPhone = (if c_phone u \<noteq> [] then Some (c_phone u) else None)\<rparr>]\<rparr>))"
proof -
  have t: "truthy (field (js_or b (Obj [])) ''coords'')"
    using assms number_truthy_receiver by (auto simp: fails_validation_def Let_def)
  show ?thesis
  proof (cases "c_phone u = []")
    case True
    then show ?thesis using assms t
      by (intro exI[of _ s] exI[of _ None])
         (simp add: post_issues_def fails_validation_def Let_def typeof_number)
  next
    case False
    show ?thesis
    proof (cases "user_tbl s (c_phone u)")
      case None
      then show ?thesis using assms t False
        by (intro exI[of _ "s\<lparr>user_tbl := (user_tbl s)(c_phone u \<mapsto>
                \<lparr>uid = user_seq s,
                 role = (if c_role u \<noteq> [] then c_role u else ''citizen'')\<rparr>),
              user_seq := user_seq s + 1\<rparr>"] exI[of _ "Some (user_seq s)"])
           (simp add: post_issues_def fails_validation_def Let_def typeof_number
              upsert_user_keep_def)
    next
      case (Some a)
      then show ?thesis using assms t False
        by (intro exI[of _ s] exI[of _ "Some (uid a)"])
           (simp add: post_issues_def fails_validation_def Let_def typeof_number
              upsert_user_keep_def)
    qed
  qed
qed

lemma issue_accepted_row:
  assumes "issue_accepted b"
  shows "issue_row_ok \<lparr>category = field (js_or b (Obj [])) ''category'',
                   description = field_default (js_or b (Obj [])) ''description'' (Str []),
                   lat = field (field (js_or b (Obj [])) ''coords'') ''lat'',
                   lng = field (field (js_or b (Obj [])) ''coords'') ''lng'',
                   status = Str ''Created'', createdById = usr\<rparr>"
  using assms by (simp add: issue_accepted_def issue_row_ok_def Let_def text_ok_def)






lemma post_issues_status_found:
  assumes "issue_tbl s i = Some iss"
    and "field_default (js_or b (Obj [])) ''status'' (Str ''Assigned'') = Str t"
  shows "post_issues_status u i b s =
    (Inr (StatusUpdated (Str t)),
     s\<lparr>issue_tbl := (issue_tbl s)(i \<mapsto> iss\<lparr>status := Str t\<rparr>),
        event_tbl := event_tbl s @
            [\<lparr>ev_issueId = i, ev_status = Str t,
              byPhone = (if c_phone u \<noteq> [] then Some (c_phone u) else None)\<rparr>]\<rparr>)"
  using assms by (simp add: post_issues_status_def Let_def text_ok_def)






text \<open>
  Claim C10: for an existing issue, a request whose body has no \<^verbatim>\<open>status\<close> field
  succeeds, sets the status to \<open>Assigned\<close> and appends one event with status
  \<open>Assigned\<close>; a request whose \<^verbatim>\<open>status\<close> is the empty string succeeds as well and
  sets the status, and the appended event's status, to the empty string.
\<close>

theorem transition_default_and_empty_status:
  assumes "issue_tbl s i = Some iss"
  shows "(field (js_or b (Obj [])) ''status'' = Undefined \<longrightarrow>
           (\<exists>s'. post_issues_status u i b s = (Inr (StatusUpdated (Str ''Assigned'')), s')
              \<and> map_option status (issue_tbl s' i) = Some (Str ''Assigned'')
              \<and> latest_status s' i = Some (Str ''Assigned'')
              \<and> length (event_tbl s') = Suc (length (event_tbl s))))
       \<and> (field (js_or b (Obj [])) ''status'' = Str [] \<longrightarrow>
           (\<exists>s'. post_issues_status u i b s = (Inr (StatusUpdated (Str [])), s')
              \<and> map_option status (issue_tbl s' i) = Some (Str [])
              \<and> latest_status s' i = Some (Str [])
              \<and> length (event_tbl s') = Suc (length (event_tbl s))))"
proof -
  have d: "field (js_or b (Obj [])) ''status'' = Undefined \<Longrightarrow>
      field_default (js_or b (Obj [])) ''status'' (Str ''Assigned'') = Str ''Assigned''"
    by (simp add: field_default_def)
  have e: "field (js_or b (Obj [])) ''status'' = Str [] \<Longrightarrow>
      field_default (js_or b (Obj [])) ''status'' (Str ''Assigned'') = Str []"
    by (simp add: field_default_def)
  show ?thesis
    using post_issues_status_found [OF assms d, of u] post_issues_status_found [OF assms e, of u]
    by (simp add: latest_status_def)
qed

theorem transition_default_and_empty_status_witness:
  "issue_tbl one_issue_store 1 \<noteq> None
   \<and> field (js_or (Obj []) (Obj [])) ''status'' = Undefined
   \<and> field (js_or (Obj [(''status'', Str [])]) (Obj [])) ''status'' = Str []
   \<and> (\<exists>s'. post_issues_status citizen 1 (Obj []) one_issue_store
               = (Inr (StatusUpdated (Str ''Assigned'')), s')
            \<and> map_option status (issue_tbl s' 1) = Some (Str ''Assigned''))
   \<and> (\<exists>s'. post_issues_status citizen 1 (Obj [(''status'', Str [])]) one_issue_store
               = (Inr (StatusUpdated (Str [])), s')
            \<and> map_option status (issue_tbl s' 1) = Some (Str []))"
proof -
  have h: "issue_tbl one_issue_store 1 = Some \<lparr>category = Str ''Pothole'', description = Str [],
                          lat = Num (Finite (129 / 10)), lng = Num (Finite (776 / 10)),
                          status = Str ''Created'', createdById = None\<rparr>"
    by (simp add: one_issue_store_def)
  have a: "field (js_or (Obj []) (Obj [])) ''status'' = Undefined"
    by (simp add: js_or_def)
  have b: "field (js_or (Obj [(''status'', Str [])]) (Obj [])) ''status'' = Str []"
    by (simp add: js_or_def)
  from transition_default_and_empty_status [OF h, of "Obj []" citizen]
    transition_default_and_empty_status [OF h, of "Obj [(''status'', Str [])]" citizen] a b h
  show ?thesis by auto
qed

text \<open>
  Claim C6 asks for the validation error whenever a coordinate is not a finite number.
  The guard tests \<^verbatim>\<open>typeof\<close> only, and NaN and the infinities are of type number
  (\<^verbatim>\<open>Infinity\<close> arrives as the JSON number \<^verbatim>\<open>1e999\<close>). What the handler does
  instead: every request that passes the guard with a coordinate that is not finite is
  refused by \<^verbatim>\<open>prisma.issue.create\<close>, whose exception nothing catches. No reply is
  sent, in particular not the validation error, and no issue, attachment or event is
  written.
\<close>

theorem create_issue_nonfinite_coordinate_unhandled:
  assumes "\<not> fails_validation b"
    and "\<not> (real_ok (field (field (js_or b (Obj [])) ''coords'') ''lat'')
            \<and> real_ok (field (field (js_or b (Obj [])) ''coords'') ''lng''))"
  shows "fst (post_issues f u b s) = Inl Unhandled
     \<and> fst (post_issues f u b s) \<noteq> Inl CoordsRequired
     \<and> issue_tbl (snd (post_issues f u b s)) = issue_tbl s
     \<and> attachment_tbl (snd (post_issues f u b s)) = attachment_tbl s
     \<and> event_tbl (snd (post_issues f u b s)) = event_tbl s"
proof -
  have "\<not> issue_row_ok \<lparr>category = field (js_or b (Obj [])) ''category'',
                   description = field_default (js_or b (Obj [])) ''description'' (Str []),
                   lat = field (field (js_or b (Obj [])) ''coords'') ''lat'',
                   lng = field (field (js_or b (Obj [])) ''coords'') ''lng'',
                   status = Str ''Created'', createdById = usr\<rparr>" for usr
    using assms(2) by (auto simp: issue_row_ok_def)
  with post_issues_passed [OF assms(1), of s f u] show ?thesis
    by (fastforce simp: Let_def)
qed

theorem create_issue_nonfinite_coordinate_unhandled_witness:
  "\<not> fails_validation (pothole (Num PosInfinity) (Arr []))
   \<and> \<not> real_ok (field (field (js_or (pothole (Num PosInfinity) (Arr [])) (Obj [])) ''coords'') ''lat'')
   \<and> fst (post_issues int32 citizen (pothole (Num PosInfinity) (Arr [])) empty_store) = Inl Unhandled
   \<and> issue_tbl (snd (post_issues int32 citizen (pothole (Num PosInfinity) (Arr [])) empty_store))
       = Map.empty"
proof -
  have a: "\<not> fails_validation (pothole (Num PosInfinity) (Arr []))"
    by (simp add: fails_validation_def pothole_def js_or_def is_number_def)
  have n: "\<not> real_ok (field (field (js_or (pothole (Num PosInfinity) (Arr [])) (Obj [])) ''coords'') ''lat'')"
    by (simp add: pothole_def js_or_def real_ok_def)
  then have b: "\<not> (real_ok (field (field (js_or (pothole (Num PosInfinity) (Arr [])) (Obj [])) ''coords'') ''lat'')
            \<and> real_ok (field (field (js_or (pothole (Num PosInfinity) (Arr [])) (Obj [])) ''coords'') ''lng''))"
    by blast
  from create_issue_nonfinite_coordinate_unhandled [OF a b, of int32 citizen empty_store] a n
  show ?thesis by (simp add: empty_store_def)
qed

lemma kept_malformed_row_refused:
  assumes "keep_ref a" and "\<not> well_formed_ref a"
  shows "\<not> attachment_row_ok f \<lparr>att_issueId = k, filename = field a ''filename'',
                        mime = field a ''mime'', size = field a ''size''\<rparr>"
proof (cases a)
  case (Obj fs)
  show ?thesis
  proof
    assume ok: "attachment_row_ok f \<lparr>att_issueId = k, filename = field a ''filename'',
                        mime = field a ''mime'', size = field a ''size''\<rparr>"
    then obtain t m x where v: "field a ''filename'' = Str t" "field a ''mime'' = Str m"
        "field a ''size'' = Num (Finite x)"
      by (auto simp: attachment_row_ok_def text_ok_iff int_ok_def split: jsval.splits jsnum.splits)
    with assms(1) have "t \<noteq> []" "m \<noteq> []" by (simp_all add: keep_ref_def)
    with v Obj have "well_formed_ref a"
      by (auto simp: well_formed_ref_def has_text_def has_number_def split: option.splits)
    with assms(2) show False by simp
  qed
qed (insert assms(1), simp_all add: keep_ref_def)

text \<open>
  Claim C8 asks that malformed references be dropped silently and never make the creation
  fail. The filter of the handler tests truthiness, not types: a reference that is not
  well formed can pass it (a \<^verbatim>\<open>filename\<close> that is \<^verbatim>\<open>true\<close>, say). What the handler
  does then, for every request whose issue row is accepted and that holds such a
  reference: \<^verbatim>\<open>prisma.attachment.createMany\<close> refuses the rows, nothing catches the
  exception, no reply is sent, and the \<open>Issue\<close> row written just before stays in the
  store with status \<open>Created\<close>, without attachment and without event.
\<close>

theorem create_issue_malformed_reference_unhandled:
  assumes "issue_accepted b"
    and "field_default (js_or b (Obj [])) ''attachments'' (Arr []) = Arr refs"
    and "a \<in> set refs" and "keep_ref a" and "\<not> well_formed_ref a"
  shows "fst (post_issues f u b s) = Inl Unhandled
     \<and> map_option status (issue_tbl (snd (post_issues f u b s)) (issue_seq s)) = Some (Str ''Created'')
     \<and> attachment_tbl (snd (post_issues f u b s)) = attachment_tbl s
     \<and> event_tbl (snd (post_issues f u b s)) = event_tbl s"
proof -
  have ne: "refs \<noteq> []" using assms(3) by auto
  have "\<lparr>att_issueId = issue_seq s, filename = field a ''filename'',
         mime = field a ''mime'', size = field a ''size''\<rparr>
       \<in> set (attachment_rows (issue_seq s) (Arr refs))"
    using assms(3,4) ne by (simp add: attachment_rows_def)
  with kept_malformed_row_refused [OF assms(4,5), of f "issue_seq s"]
  have bad: "\<not> list_all (attachment_row_ok f) (attachment_rows (issue_seq s) (Arr refs))"
    by (auto simp: list_all_iff)
  from post_issues_passed [OF issue_accepted_valid [OF assms(1)], of s f u]
  show ?thesis
    using issue_accepted_row [OF assms(1)] bad by (fastforce simp: Let_def assms(2))
qed

theorem create_issue_malformed_reference_unhandled_witness:
  "issue_accepted (pothole (Num (Finite (129 / 10))) (Arr [photo_named (Bool True)]))
   \<and> keep_ref (photo_named (Bool True)) \<and> \<not> well_formed_ref (photo_named (Bool True))
   \<and> fst (post_issues int32 citizen
            (pothole (Num (Finite (129 / 10))) (Arr [photo_named (Bool True)])) empty_store)
        = Inl Unhandled
   \<and> map_option status (issue_tbl (snd (post_issues int32 citizen
            (pothole (Num (Finite (129 / 10))) (Arr [photo_named (Bool True)])) empty_store)) 1)
        = Some (Str ''Created'')
   \<and> event_tbl (snd (post_issues int32 citizen
            (pothole (Num (Finite (129 / 10))) (Arr [photo_named (Bool True)])) empty_store)) = []
   \<and> attachment_tbl (snd (post_issues int32 citizen
            (pothole (Num (Finite (129 / 10))) (Arr [photo_named (Bool True)])) empty_store)) = []"
proof -
  let ?b = "pothole (Num (Finite (129 / 10))) (Arr [photo_named (Bool True)])"
  have a: "issue_accepted ?b"
    by (simp add: issue_accepted_def pothole_def js_or_def field_default_def Let_def
          text_ok_def real_ok_def)
  have r: "field_default (js_or ?b (Obj [])) ''attachments'' (Arr []) = Arr [photo_named (Bool True)]"
    by (simp add: pothole_def js_or_def field_default_def)
  have m: "photo_named (Bool True) \<in> set [photo_named (Bool True)]" by simp
  have k: "keep_ref (photo_named (Bool True))"
    by (simp add: keep_ref_def photo_named_def)
  have w: "\<not> well_formed_ref (photo_named (Bool True))"
    by (simp add: well_formed_ref_def photo_named_def has_text_def)
  from create_issue_malformed_reference_unhandled [OF a r m k w, of int32 citizen empty_store] a k w
  show ?thesis by (simp add: empty_store_def)
qed

end
